theory Spec2Isabelle
  imports Complex_Main
begin

section \<open>The host framework's objects\<close>

text \<open>
  The module \<^verbatim>\<open>pyomo/util/infeasible.py\<close> reads variables, constraints and blocks that
  the modelling framework owns. The classes themselves are not part of the file under
  study, so the four types below describe them. Numbers are real numbers: the
  comparisons of the source are the subject here, not the rounding of Python floats.
\<close>

text \<open>Modelled from the spec: the class \<^verbatim>\<open>Var\<close> is missing; a variable has an optional
  current value (absent if unset), an optional lower bound, an optional upper bound and a
  fixed flag (\<^verbatim>\<open>var.name\<close>, \<^verbatim>\<open>var.value\<close>, \<^verbatim>\<open>var.lb\<close>, \<^verbatim>\<open>var.ub\<close>, \<^verbatim>\<open>var.fixed\<close>).\<close>

record var =
  var_name :: string
  var_value :: "real option"
  var_lb :: "real option"
  var_ub :: "real option"
  var_fixed :: bool

text \<open>Modelled from the spec: the expression classes and the functions \<^verbatim>\<open>value\<close> and
  \<^verbatim>\<open>identify_variables\<close> are missing; an expression is known by what they return on it:
  \<^verbatim>\<open>value(e, exception=False)\<close> is the number or the absent result \<open>None\<close>,
  \<^verbatim>\<open>identify_variables(e, include_fixed=True)\<close> the variables it refers to, and
  \<^verbatim>\<open>str(e)\<close> its text.\<close>

record expression =
  expr_value :: "real option"
  expr_vars :: "var list"
  expr_text :: string

text \<open>Modelled from the spec: the class \<^verbatim>\<open>Constraint\<close> is missing; a constraint has a
  body, an optional lower and upper bound and an equality flag, and a constraint flagged
  as an equality has one target value that is both its lower and its upper bound. The tag
  \<open>Equality\<close> carries that shared bound, \<open>Range\<close> the two optional bounds of an
  inequality.\<close>

datatype bounds = Equality real | Range "real option" "real option"

record constraint =
  constr_name :: string
  constr_active :: bool
  constr_body :: expression
  constr_bounds :: bounds

definition constr_equality :: "constraint \<Rightarrow> bool" where
  "constr_equality c = (case constr_bounds c of Equality t \<Rightarrow> True | Range l u \<Rightarrow> False)"

definition constr_lower :: "constraint \<Rightarrow> real option" where
  "constr_lower c = (case constr_bounds c of Equality t \<Rightarrow> Some t | Range l u \<Rightarrow> l)"

definition constr_upper :: "constraint \<Rightarrow> real option" where
  "constr_upper c = (case constr_bounds c of Equality t \<Rightarrow> Some t | Range l u \<Rightarrow> u)"

text \<open>Modelled from the spec: the class \<^verbatim>\<open>Block\<close> and its method
  \<^verbatim>\<open>component_data_objects\<close> are missing; a block holds variables, constraints and nested
  blocks, and the traversal with \<^verbatim>\<open>descend_into=True\<close> yields the components of a block
  before those of its nested blocks (prefix depth first). With \<^verbatim>\<open>active=True\<close> only
  active constraints are yielded.\<close>

datatype block = Block (block_vars: "var list") (block_constrs: "constraint list")
  (block_blocks: "block list")

fun var_objects :: "block \<Rightarrow> var list" where
  "var_objects (Block vs cs bs) = vs @ concat (map var_objects bs)"

fun constraint_objects :: "block \<Rightarrow> constraint list" where
  "constraint_objects (Block vs cs bs) = cs @ concat (map constraint_objects bs)"

definition active_constraint_objects :: "block \<Rightarrow> constraint list" where
  "active_constraint_objects m = filter constr_active (constraint_objects m)"

section \<open>Logging\<close>

text \<open>
  A logger is known by its name; \<^verbatim>\<open>logging.getLogger('pyomo.util.infeasible')\<close> is the
  module's own. A call of \<^verbatim>\<open>logger.info\<close> or \<^verbatim>\<open>logger.debug\<close> hands one record to the
  logging system; the sink lists the records in the order of the calls. Which of them a
  handler finally prints depends on the levels configured on the logger, which the report
  functions never read.
\<close>

datatype level = DEBUG | INFO

datatype logger = Logger string

definition module_logger :: logger where
  "module_logger = Logger ''pyomo.util.infeasible''"

record log_record =
  rec_logger :: logger
  rec_level :: level
  rec_msg :: string

text \<open>The world is what a call can read or change: the model that the handle \<^verbatim>\<open>m\<close>
  refers to, and the records handed to the logging system so far.\<close>

record world =
  model :: block
  sink :: "log_record list"

definition info_record :: "logger \<Rightarrow> string \<Rightarrow> log_record" where
  "info_record lg s = \<lparr>rec_logger = lg, rec_level = INFO, rec_msg = s\<rparr>"

definition debug_record :: "logger \<Rightarrow> string \<Rightarrow> log_record" where
  "debug_record lg s = \<lparr>rec_logger = lg, rec_level = DEBUG, rec_msg = s\<rparr>"

definition logger_info :: "logger \<Rightarrow> string \<Rightarrow> world \<Rightarrow> world" where
  "logger_info lg s w = w\<lparr>sink := sink w @ [info_record lg s]\<rparr>"

definition logger_debug :: "logger \<Rightarrow> string \<Rightarrow> world \<Rightarrow> world" where
  "logger_debug lg s w = w\<lparr>sink := sink w @ [debug_record lg s]\<rparr>"






section \<open>Formatting\<close>

text \<open>
  How Python prints a number through \<^verbatim>\<open>str.format\<close>, and how the framework prints the
  object behind \<^verbatim>\<open>constr.lower\<close> or \<^verbatim>\<open>constr.upper\<close>, is not decided in this module: both
  are parameters. \<open>None\<close> prints as \<^verbatim>\<open>None\<close>.
\<close>

record formatter =
  fmt_value :: "real \<Rightarrow> string"
  fmt_bound :: "real \<Rightarrow> string"

definition newline :: string where
  "newline = [CHR 0x0A]"

fun join :: "string \<Rightarrow> string list \<Rightarrow> string" where
  "join sep [] = []"
| "join sep [x] = x"
| "join sep (x # y # ys) = x @ sep @ join sep (y # ys)"

text \<open>\<^verbatim>\<open>vars_template = "  VAR {name}: {value}"\<close>, filled with a variable's name and value.\<close>

definition vars_template :: "formatter \<Rightarrow> var \<Rightarrow> string" where
  "vars_template f v = ''  VAR '' @ var_name v @ '': '' @
     (case var_value v of None \<Rightarrow> ''None'' | Some x \<Rightarrow> fmt_value f x)"

definition var_printout :: "formatter \<Rightarrow> expression \<Rightarrow> string" where
  "var_printout f e = join newline (map (vars_template f) (expr_vars e))"

text \<open>\<^verbatim>\<open>log_template\<close>, as the two flags extend it, filled with the entries of
  \<^verbatim>\<open>output_dict\<close>.\<close>

definition log_template ::
  "bool \<Rightarrow> bool \<Rightarrow> string \<Rightarrow> string \<Rightarrow> string \<Rightarrow> string \<Rightarrow> string \<Rightarrow> string \<Rightarrow> string \<Rightarrow> string"
where
  "log_template log_expression log_variables name lhs_value operation rhs_value
       lhs_expr rhs_expr printout =
     ''CONSTR '' @ name @ '': '' @ lhs_value @ '' '' @ operation @ '' '' @ rhs_value
     @ (if log_expression
        then newline @ ''  '' @ lhs_expr @ '' '' @ operation @ '' '' @ rhs_expr else [])
     @ (if log_variables then newline @ printout else [])"

section \<open>The report functions\<close>

subsection \<open>\<^verbatim>\<open>log_infeasible_constraints\<close>\<close>

text \<open>The body of the loop, for one constraint. Each \<^verbatim>\<open>continue\<close> of the source is a
  branch that returns the world at once; the two bound checks after the equality test are
  run one after the other on the same constraint.\<close>

definition infeasible_constraint ::
  "formatter \<Rightarrow> real \<Rightarrow> logger \<Rightarrow> bool \<Rightarrow> bool \<Rightarrow> constraint \<Rightarrow> world \<Rightarrow> world"
where
  "infeasible_constraint f tol lg log_expression log_variables constr w =
     (case expr_value (constr_body constr) of
        None \<Rightarrow>
          logger_info lg
            (''CONSTR '' @ constr_name constr @ '': missing variable value.'' @
             (if log_variables then newline @ var_printout f (constr_body constr) else []))
            w
      | Some b \<Rightarrow>
          let check_bounds = (\<lambda>w0.
            let w1 = (case constr_lower constr of
                        Some l \<Rightarrow>
                          if tol \<le> l - b
                          then logger_info lg
                            (log_template log_expression log_variables (constr_name constr)
                               (fmt_value f l) ''</='' (fmt_value f b)
                               (fmt_bound f l) (expr_text (constr_body constr))
                               (var_printout f (constr_body constr))) w0
                          else w0
                      | None \<Rightarrow> w0)
            in (case constr_upper constr of
                  Some u \<Rightarrow>
                    if tol \<le> b - u
                    then logger_info lg
                      (log_template log_expression log_variables (constr_name constr)
                         (fmt_value f b) ''</='' (fmt_value f u)
                         (expr_text (constr_body constr)) (fmt_bound f u)
                         (var_printout f (constr_body constr))) w1
                    else w1
                | None \<Rightarrow> w1))
          in (case constr_bounds constr of
                Equality t \<Rightarrow>
                  if tol \<le> \<bar>t - b\<bar>
                  then logger_info lg
                    (log_template log_expression log_variables (constr_name constr)
                       (fmt_value f b) ''=/='' (fmt_value f t)
                       (expr_text (constr_body constr)) (fmt_bound f t)
                       (var_printout f (constr_body constr))) w
                  else check_bounds w
              | Range l u \<Rightarrow> check_bounds w))"

definition log_infeasible_constraints ::
  "formatter \<Rightarrow> real \<Rightarrow> logger \<Rightarrow> bool \<Rightarrow> bool \<Rightarrow> world \<Rightarrow> world"
where
  "log_infeasible_constraints f tol lg log_expression log_variables w =
     fold (infeasible_constraint f tol lg log_expression log_variables)
       (active_constraint_objects (model w)) w"

subsection \<open>\<^verbatim>\<open>log_infeasible_bounds\<close>\<close>

definition skip_var_msg :: string where
  "skip_var_msg = ''Skipping VAR {} with no assigned value.''"

definition infeasible_bound :: "formatter \<Rightarrow> real \<Rightarrow> logger \<Rightarrow> var \<Rightarrow> world \<Rightarrow> world" where
  "infeasible_bound f tol lg v w =
     (case var_value v of
        None \<Rightarrow> logger_debug lg skip_var_msg w
      | Some x \<Rightarrow>
          let w1 = (case var_lb v of
                      Some l \<Rightarrow>
                        if tol \<le> l - x
                        then logger_info lg
                          (''VAR '' @ var_name v @ '': '' @ fmt_value f x @ '' < LB '' @
                           fmt_value f l) w
                        else w
                    | None \<Rightarrow> w)
          in (case var_ub v of
                Some u \<Rightarrow>
                  if tol \<le> x - u
                  then logger_info lg
                    (''VAR '' @ var_name v @ '': '' @ fmt_value f x @ '' > UB '' @
                     fmt_value f u) w1
                  else w1
              | None \<Rightarrow> w1))"

definition log_infeasible_bounds :: "formatter \<Rightarrow> real \<Rightarrow> logger \<Rightarrow> world \<Rightarrow> world" where
  "log_infeasible_bounds f tol lg w =
     fold (infeasible_bound f tol lg) (var_objects (model w)) w"

subsection \<open>\<^verbatim>\<open>log_close_to_bounds\<close>\<close>

text \<open>The body of the first loop, for one variable: a fixed variable is left at once,
  before its value is looked at; the test for a lower bound comes first and the test for
  an upper bound is its \<^verbatim>\<open>elif\<close>.\<close>

definition close_var :: "formatter \<Rightarrow> real \<Rightarrow> logger \<Rightarrow> var \<Rightarrow> world \<Rightarrow> world" where
  "close_var f tol lg v w =
     (if var_fixed v then w
      else (case var_value v of
              None \<Rightarrow> logger_debug lg skip_var_msg w
            | Some x \<Rightarrow>
                if (case (var_lb v, var_ub v) of
                      (Some l, Some u) \<Rightarrow> \<bar>u - l\<bar> \<le> 2 * tol
                    | _ \<Rightarrow> False)
                then w
                else
                  let near_ub =
                    (case var_ub v of
                       Some u \<Rightarrow>
                         if \<bar>u - x\<bar> \<le> tol
                         then logger_info lg (var_name v @ '' near UB of '' @ fmt_value f u) w
                         else w
                     | None \<Rightarrow> w)
                  in (case var_lb v of
                        Some l \<Rightarrow>
                          if \<bar>l - x\<bar> \<le> tol
                          then logger_info lg (var_name v @ '' near LB of '' @ fmt_value f l) w
                          else near_ub
                      | None \<Rightarrow> near_ub)))"

text \<open>The body of the second loop, for one active constraint: an equality constraint is
  passed over without its body being evaluated; the upper bound is tested before the
  lower one, each by an \<^verbatim>\<open>if\<close> of its own.\<close>

definition close_constraint :: "real \<Rightarrow> logger \<Rightarrow> constraint \<Rightarrow> world \<Rightarrow> world" where
  "close_constraint tol lg constr w =
     (if \<not> constr_equality constr
      then (case expr_value (constr_body constr) of
              None \<Rightarrow>
                logger_info lg
                  (''Skipping CONSTR '' @ constr_name constr @ '': missing variable value.'') w
            | Some b \<Rightarrow>
                let w1 = (case constr_upper constr of
                            Some u \<Rightarrow>
                              if \<bar>b - u\<bar> \<le> tol
                              then logger_info lg (constr_name constr @ '' near UB'') w
                              else w
                          | None \<Rightarrow> w)
                in (case constr_lower constr of
                      Some l \<Rightarrow>
                        if \<bar>b - l\<bar> \<le> tol
                        then logger_info lg (constr_name constr @ '' near LB'') w1
                        else w1
                    | None \<Rightarrow> w1))
      else w)"

definition log_close_to_bounds :: "formatter \<Rightarrow> real \<Rightarrow> logger \<Rightarrow> world \<Rightarrow> world" where
  "log_close_to_bounds f tol lg w =
     (let w1 = fold (close_var f tol lg) (var_objects (model w)) w
      in fold (close_constraint tol lg) (active_constraint_objects (model w1)) w1)"

subsection \<open>\<^verbatim>\<open>log_active_constraints\<close>\<close>

definition active_constraint :: "logger \<Rightarrow> constraint \<Rightarrow> world \<Rightarrow> world" where
  "active_constraint lg constr w = logger_info lg (constr_name constr @ '' active'') w"

definition log_active_constraints :: "logger \<Rightarrow> world \<Rightarrow> world" where
  "log_active_constraints lg w =
     fold (active_constraint lg) (active_constraint_objects (model w)) w"

section \<open>Calling the report functions\<close>

text \<open>
  The \<^verbatim>\<open>def\<close> lines give each function its parameters and their defaults. A call names
  the model and may pass any of the keyword arguments below; a parameter that is not
  passed takes its default, and a keyword that the function does not declare makes Python
  raise \<^verbatim>\<open>TypeError\<close> before the body runs.
  \<^verbatim>\<open>
  def log_infeasible_constraints(m, tol=1E-6, logger=logger,
                                 log_expression=False, log_variables=False)
  def log_infeasible_bounds(m, tol=1E-6, logger=logger)
  def log_close_to_bounds(m, tol=1E-6, logger=logger)
  def log_active_constraints(m, logger=logger)
  \<close>
\<close>

record kwargs =
  kw_tol :: "real option"
  kw_logger :: "logger option"
  kw_log_expression :: "bool option"
  kw_log_variables :: "bool option"

datatype error = TypeError

definition default :: "'a \<Rightarrow> 'a option \<Rightarrow> 'a" where
  "default d a = (case a of None \<Rightarrow> d | Some x \<Rightarrow> x)"

definition call_log_infeasible_constraints :: "formatter \<Rightarrow> kwargs \<Rightarrow> world \<Rightarrow> error + world"
where
  "call_log_infeasible_constraints f kw w =
     Inr (log_infeasible_constraints f
            (default (1 / 1000000) (kw_tol kw)) (default module_logger (kw_logger kw))
            (default False (kw_log_expression kw)) (default False (kw_log_variables kw)) w)"

definition call_log_infeasible_bounds :: "formatter \<Rightarrow> kwargs \<Rightarrow> world \<Rightarrow> error + world" where
  "call_log_infeasible_bounds f kw w =
     (if kw_log_expression kw \<noteq> None \<or> kw_log_variables kw \<noteq> None then Inl TypeError
      else Inr (log_infeasible_bounds f
                  (default (1 / 1000000) (kw_tol kw)) (default module_logger (kw_logger kw)) w))"

definition call_log_close_to_bounds :: "formatter \<Rightarrow> kwargs \<Rightarrow> world \<Rightarrow> error + world" where
  "call_log_close_to_bounds f kw w =
     (if kw_log_expression kw \<noteq> None \<or> kw_log_variables kw \<noteq> None then Inl TypeError
      else Inr (log_close_to_bounds f
                  (default (1 / 1000000) (kw_tol kw)) (default module_logger (kw_logger kw)) w))"

definition call_log_active_constraints :: "kwargs \<Rightarrow> world \<Rightarrow> error + world" where
  "call_log_active_constraints kw w =
     (if kw_tol kw \<noteq> None \<or> kw_log_expression kw \<noteq> None \<or> kw_log_variables kw \<noteq> None
      then Inl TypeError
      else Inr (log_active_constraints (default module_logger (kw_logger kw)) w))"

section \<open>Basic facts\<close>

lemma sink_logger_info: "sink (logger_info lg s w) = sink w @ [info_record lg s]"
  by (simp add: logger_info_def)

lemma sink_logger_debug: "sink (logger_debug lg s w) = sink w @ [debug_record lg s]"
  by (simp add: logger_debug_def)

lemma model_logger_info: "model (logger_info lg s w) = model w"
  by (simp add: logger_info_def)

lemma model_logger_debug: "model (logger_debug lg s w) = model w"
  by (simp add: logger_debug_def)

lemma model_infeasible_constraint:
  "model (infeasible_constraint f tol lg le lv c w) = model w"
  by (simp add: infeasible_constraint_def Let_def model_logger_info
        split: option.split bounds.split)

lemma model_infeasible_bound: "model (infeasible_bound f tol lg v w) = model w"
  by (simp add: infeasible_bound_def Let_def model_logger_info model_logger_debug
        split: option.split)

lemma model_close_var: "model (close_var f tol lg v w) = model w"
  by (simp add: close_var_def Let_def model_logger_info model_logger_debug
        split: option.split)

lemma model_close_constraint: "model (close_constraint tol lg c w) = model w"
  by (simp add: close_constraint_def Let_def model_logger_info split: option.split)

lemma model_active_constraint: "model (active_constraint lg c w) = model w"
  by (simp add: active_constraint_def model_logger_info)

lemma model_fold:
  assumes "\<And>x s. model (g x s) = model s"
  shows "model (fold g xs w) = model w"
  by (induction xs arbitrary: w) (simp_all add: assms)

lemma extends_fold:
  assumes "\<And>x s. \<exists>recs. sink (g x s) = sink s @ recs"
  shows "\<exists>recs. sink (fold g xs w) = sink w @ recs"
proof (induction xs arbitrary: w)
  case Nil
  show ?case by simp
next
  case (Cons x xs)
  obtain r1 where r1: "sink (g x w) = sink w @ r1" using assms by blast
  obtain r2 where r2: "sink (fold g xs (g x w)) = sink (g x w) @ r2" using Cons by blast
  show ?case using r1 r2 by simp
qed

lemma grows_infeasible_constraint:
  "\<exists>recs. sink (infeasible_constraint f tol lg le lv c w) = sink w @ recs"
  by (simp add: infeasible_constraint_def Let_def sink_logger_info
        split: option.split bounds.split)

lemma grows_infeasible_bound: "\<exists>recs. sink (infeasible_bound f tol lg v w) = sink w @ recs"
  by (simp add: infeasible_bound_def Let_def sink_logger_info sink_logger_debug
        split: option.split)

lemma grows_close_var: "\<exists>recs. sink (close_var f tol lg v w) = sink w @ recs"
  by (simp add: close_var_def Let_def sink_logger_info sink_logger_debug
        split: option.split)

lemma grows_close_constraint: "\<exists>recs. sink (close_constraint tol lg c w) = sink w @ recs"
  by (simp add: close_constraint_def Let_def sink_logger_info split: option.split)

lemma grows_active_constraint: "\<exists>recs. sink (active_constraint lg c w) = sink w @ recs"
  by (simp add: active_constraint_def sink_logger_info)

lemma log_close_to_bounds_unfold:
  "log_close_to_bounds f tol lg w =
     fold (close_constraint tol lg) (active_constraint_objects (model w))
       (fold (close_var f tol lg) (var_objects (model w)) w)"
proof -
  have "model (fold (close_var f tol lg) (var_objects (model w)) w) = model w"
    by (rule model_fold) (rule model_close_var)
  then show ?thesis by (simp add: log_close_to_bounds_def Let_def)
qed

section \<open>Equality constraints in \<^verbatim>\<open>log_infeasible_constraints\<close>\<close>

lemma infeasible_constraint_Equality:
  assumes "constr_bounds c = Equality t" and "expr_value (constr_body c) = Some b"
  shows "infeasible_constraint f tol lg le lv c w =
           (if tol \<le> \<bar>b - t\<bar>
            then logger_info lg
                   (''CONSTR '' @ constr_name c @ '': '' @ fmt_value f b @ '' =/= '' @ fmt_value f t
                    @ (if le then newline @ ''  '' @ expr_text (constr_body c) @ '' =/= '' @ fmt_bound f t else [])
                    @ (if lv then newline @ var_printout f (constr_body c) else [])) w
            else w)"
proof (cases "tol \<le> \<bar>b - t\<bar>")
  case True
  then have "tol \<le> \<bar>t - b\<bar>" by linarith
  then show ?thesis
    using True assms by (simp add: infeasible_constraint_def log_template_def Let_def)
next
  case False
  then have "\<not> tol \<le> \<bar>t - b\<bar>" and "\<not> tol \<le> t - b" and "\<not> tol \<le> b - t" by linarith+
  then show ?thesis
    using False assms
    by (simp add: infeasible_constraint_def constr_lower_def constr_upper_def Let_def)
qed

text \<open>
  Claim C1. Let \<open>c\<close> be an active equality constraint of the model, with target \<open>t\<close>,
  whose body evaluates to \<open>b\<close>. Then \<^verbatim>\<open>log_infeasible_constraints\<close> processes the active
  constraints before \<open>c\<close>, logs a violation line for \<open>c\<close> exactly when
  \<open>\<bar>b - t\<bar> \<ge> tol\<close>, and goes on with the active constraints after \<open>c\<close>. The line
  reads \<^verbatim>\<open>CONSTR name: \<close>, the body value, \<^verbatim>\<open>=/=\<close>, the bound value, in that order; the
  two flags append the expression text and the variable printout after it.
\<close>

theorem equality_violation_logged:
  assumes "active_constraint_objects (model w) = cs @ c # cs'"
    and "constr_bounds c = Equality t" and "expr_value (constr_body c) = Some b"
  shows "log_infeasible_constraints f tol lg le lv w =
           fold (infeasible_constraint f tol lg le lv) cs'
             (let w1 = fold (infeasible_constraint f tol lg le lv) cs w
              in if tol \<le> \<bar>b - t\<bar>
                 then logger_info lg
                        (''CONSTR '' @ constr_name c @ '': '' @ fmt_value f b @ '' =/= '' @ fmt_value f t
                         @ (if le then newline @ ''  '' @ expr_text (constr_body c) @ '' =/= '' @ fmt_bound f t else [])
                         @ (if lv then newline @ var_printout f (constr_body c) else [])) w1
                 else w1)"
  using assms(1) infeasible_constraint_Equality [OF assms(2,3)]
  by (simp add: log_infeasible_constraints_def Let_def)

text \<open>The scenario of the specification: body 5.0 against target 5.1 with tolerance
  \<^verbatim>\<open>1E-6\<close>, where Python prints the two numbers as \<^verbatim>\<open>5.0\<close> and \<^verbatim>\<open>5.1\<close>. The constraint
  sits in a nested block, beside an inactive constraint that is not visited.\<close>

theorem equality_violation_logged_witness:
  "sink (log_infeasible_constraints
           \<lparr>fmt_value = (\<lambda>x. if x = 5 then ''5.0'' else ''5.1''), fmt_bound = (\<lambda>x. ''5.1'')\<rparr>
           (1 / 1000000) module_logger False False
           \<lparr>model = Block [] [\<lparr>constr_name = ''d'', constr_active = False, constr_body = \<lparr>expr_value = None, expr_vars = [], expr_text = ''x''\<rparr>, constr_bounds = Range (Some 0) None\<rparr>] [Block [] [\<lparr>constr_name = ''name'', constr_active = True, constr_body = \<lparr>expr_value = Some 5, expr_vars = [], expr_text = ''x''\<rparr>, constr_bounds = Equality (51 / 10)\<rparr>] []], sink = []\<rparr>)
   = [info_record module_logger ''CONSTR name: 5.0 =/= 5.1'']"
  using equality_violation_logged [where
           w = "\<lparr>model = Block [] [\<lparr>constr_name = ''d'', constr_active = False, constr_body = \<lparr>expr_value = None, expr_vars = [], expr_text = ''x''\<rparr>, constr_bounds = Range (Some 0) None\<rparr>] [Block [] [\<lparr>constr_name = ''name'', constr_active = True, constr_body = \<lparr>expr_value = Some 5, expr_vars = [], expr_text = ''x''\<rparr>, constr_bounds = Equality (51 / 10)\<rparr>] []], sink = []\<rparr>"
           and cs = "[]"
           and c = "\<lparr>constr_name = ''name'', constr_active = True, constr_body = \<lparr>expr_value = Some 5, expr_vars = [], expr_text = ''x''\<rparr>, constr_bounds = Equality (51 / 10)\<rparr>"
           and cs' = "[]" and t = "51 / 10" and b = 5
           and f = "\<lparr>fmt_value = (\<lambda>x. if x = 5 then ''5.0'' else ''5.1''), fmt_bound = (\<lambda>x. ''5.1'')\<rparr>"
           and tol = "1 / 1000000" and lg = module_logger and le = False and lv = False]
  by (simp add: active_constraint_objects_def sink_logger_info)

section \<open>Inequality constraints in \<^verbatim>\<open>log_infeasible_constraints\<close>\<close>

lemma infeasible_constraint_Range:
  assumes "constr_bounds c = Range lower upper" and "expr_value (constr_body c) = Some b"
  shows "infeasible_constraint f tol lg le lv c w =
           (let w1 = (case lower of
                        Some l \<Rightarrow>
                          if tol \<le> l - b
                          then logger_info lg
                                 (''CONSTR '' @ constr_name c @ '': '' @ fmt_value f l @ '' </= '' @ fmt_value f b
                                  @ (if le then newline @ ''  '' @ fmt_bound f l @ '' </= '' @ expr_text (constr_body c) else [])
                                  @ (if lv then newline @ var_printout f (constr_body c) else [])) w
                          else w
                      | None \<Rightarrow> w)
            in (case upper of
                  Some u \<Rightarrow>
                    if tol \<le> b - u
                    then logger_info lg
                           (''CONSTR '' @ constr_name c @ '': '' @ fmt_value f b @ '' </= '' @ fmt_value f u
                            @ (if le then newline @ ''  '' @ expr_text (constr_body c) @ '' </= '' @ fmt_bound f u else [])
                            @ (if lv then newline @ var_printout f (constr_body c) else [])) w1
                    else w1
                | None \<Rightarrow> w1))"
  using assms
  by (simp add: infeasible_constraint_def constr_lower_def constr_upper_def
        log_template_def Let_def split: option.split)

text \<open>
  Claim C2. Let \<open>c\<close> be an active constraint of the model that is not an equality and
  whose body evaluates to \<open>b\<close>. Then \<^verbatim>\<open>log_infeasible_constraints\<close> processes the active
  constraints before \<open>c\<close>, runs the two bound checks on \<open>c\<close> independently, and goes on
  with the active constraints after \<open>c\<close>. A line for the lower bound \<open>l\<close> is logged
  exactly when the bound exists and \<open>l - b \<ge> tol\<close>, and reads bound, \<^verbatim>\<open></=\<close>, body; a
  line for the upper bound \<open>u\<close> is logged exactly when the bound exists and
  \<open>b - u \<ge> tol\<close>, and reads body, \<^verbatim>\<open></=\<close>, bound. Both lines can be logged for one
  constraint, the lower one first.
\<close>

theorem range_checks_independent:
  assumes "active_constraint_objects (model w) = cs @ c # cs'"
    and "constr_bounds c = Range lower upper" and "expr_value (constr_body c) = Some b"
  shows "log_infeasible_constraints f tol lg le lv w =
           fold (infeasible_constraint f tol lg le lv) cs'
             (let w0 = fold (infeasible_constraint f tol lg le lv) cs w;
                  w1 = (case lower of
                        Some l \<Rightarrow>
                          if tol \<le> l - b
                          then logger_info lg
                                 (''CONSTR '' @ constr_name c @ '': '' @ fmt_value f l @ '' </= '' @ fmt_value f b
                                  @ (if le then newline @ ''  '' @ fmt_bound f l @ '' </= '' @ expr_text (constr_body c) else [])
                                  @ (if lv then newline @ var_printout f (constr_body c) else [])) w0
                          else w0
                      | None \<Rightarrow> w0)
              in (case upper of
                  Some u \<Rightarrow>
                    if tol \<le> b - u
                    then logger_info lg
                           (''CONSTR '' @ constr_name c @ '': '' @ fmt_value f b @ '' </= '' @ fmt_value f u
                            @ (if le then newline @ ''  '' @ expr_text (constr_body c) @ '' </= '' @ fmt_bound f u else [])
                            @ (if lv then newline @ var_printout f (constr_body c) else [])) w1
                    else w1
                | None \<Rightarrow> w1))"
  using assms(1) infeasible_constraint_Range [OF assms(2,3)]
  by (simp add: log_infeasible_constraints_def Let_def)

text \<open>The scenario of the specification (lower bound 0, body -1), followed by a
  constraint for which both checks fire.\<close>

theorem range_checks_independent_witness:
  "sink (log_infeasible_constraints
           \<lparr>fmt_value = (\<lambda>x. if x = 0 then ''0'' else if x = - 1 then ''-1'' else if x = 5 then ''5'' else if x = 3 then ''3'' else ''1''), fmt_bound = (\<lambda>x. ''?'')\<rparr>
           (1 / 1000000) module_logger False False
           \<lparr>model = Block [] [\<lparr>constr_name = ''name'', constr_active = True, constr_body = \<lparr>expr_value = Some (- 1), expr_vars = [], expr_text = ''x''\<rparr>, constr_bounds = Range (Some 0) None\<rparr>, \<lparr>constr_name = ''c'', constr_active = True, constr_body = \<lparr>expr_value = Some 3, expr_vars = [], expr_text = ''x''\<rparr>, constr_bounds = Range (Some 5) (Some 1)\<rparr>] [], sink = []\<rparr>)
   = [info_record module_logger ''CONSTR name: 0 </= -1'',
      info_record module_logger ''CONSTR c: 5 </= 3'',
      info_record module_logger ''CONSTR c: 3 </= 1'']"
  using range_checks_independent [where
           w = "\<lparr>model = Block [] [\<lparr>constr_name = ''name'', constr_active = True, constr_body = \<lparr>expr_value = Some (- 1), expr_vars = [], expr_text = ''x''\<rparr>, constr_bounds = Range (Some 0) None\<rparr>, \<lparr>constr_name = ''c'', constr_active = True, constr_body = \<lparr>expr_value = Some 3, expr_vars = [], expr_text = ''x''\<rparr>, constr_bounds = Range (Some 5) (Some 1)\<rparr>] [], sink = []\<rparr>"
           and cs = "[\<lparr>constr_name = ''name'', constr_active = True, constr_body = \<lparr>expr_value = Some (- 1), expr_vars = [], expr_text = ''x''\<rparr>, constr_bounds = Range (Some 0) None\<rparr>]"
           and c = "\<lparr>constr_name = ''c'', constr_active = True, constr_body = \<lparr>expr_value = Some 3, expr_vars = [], expr_text = ''x''\<rparr>, constr_bounds = Range (Some 5) (Some 1)\<rparr>"
           and cs' = "[]" and lower = "Some 5" and upper = "Some 1" and b = 3
           and f = "\<lparr>fmt_value = (\<lambda>x. if x = 0 then ''0'' else if x = - 1 then ''-1'' else if x = 5 then ''5'' else if x = 3 then ''3'' else ''1''), fmt_bound = (\<lambda>x. ''?'')\<rparr>"
           and tol = "1 / 1000000" and lg = module_logger and le = False and lv = False]
  by (simp add: active_constraint_objects_def sink_logger_info infeasible_constraint_def
        constr_lower_def constr_upper_def log_template_def)

section \<open>An equality constraint is never reported as a range\<close>

text \<open>
  Claim C3. For a constraint with the equality flag set, whose lower and upper bound are
  the same target \<open>t\<close>, and whose body evaluates, \<^verbatim>\<open>log_infeasible_constraints\<close> logs no
  \<^verbatim>\<open></=\<close> line: the loop body leaves the world as it is or logs the single \<^verbatim>\<open>=/=\<close> line.
  When the equality test does not fire the two bound checks are still reached, but with
  \<open>\<bar>t - b\<bar> < tol\<close> neither of them can fire.
\<close>

theorem equality_never_range_checked:
  assumes "constr_equality c" and "expr_value (constr_body c) = Some b"
  shows "\<exists>t. constr_lower c = Some t \<and> constr_upper c = Some t \<and>
           (infeasible_constraint f tol lg le lv c w = w \<or>
            infeasible_constraint f tol lg le lv c w =
              logger_info lg
                (log_template le lv (constr_name c) (fmt_value f b) ''=/='' (fmt_value f t)
                   (expr_text (constr_body c)) (fmt_bound f t) (var_printout f (constr_body c))) w)"
proof (cases "constr_bounds c")
  case (Equality t)
  have "infeasible_constraint f tol lg le lv c w = w" if "\<not> tol \<le> \<bar>t - b\<bar>"
  proof -
    from that have "\<not> tol \<le> t - b" and "\<not> tol \<le> b - t" by linarith+
    then show ?thesis
      using that Equality assms(2)
      by (simp add: infeasible_constraint_def constr_lower_def constr_upper_def Let_def)
  qed
  moreover have "infeasible_constraint f tol lg le lv c w =
              logger_info lg
                (log_template le lv (constr_name c) (fmt_value f b) ''=/='' (fmt_value f t)
                   (expr_text (constr_body c)) (fmt_bound f t) (var_printout f (constr_body c))) w"
    if "tol \<le> \<bar>t - b\<bar>"
    using that Equality assms(2) by (simp add: infeasible_constraint_def Let_def)
  ultimately show ?thesis
    using Equality by (auto simp add: constr_lower_def constr_upper_def)
next
  case (Range l u)
  with assms(1) show ?thesis by (simp add: constr_equality_def)
qed

theorem equality_never_range_checked_witness:
  "\<exists>t. constr_lower \<lparr>constr_name = ''e'', constr_active = True,
            constr_body = \<lparr>expr_value = Some 5, expr_vars = [], expr_text = ''x''\<rparr>,
            constr_bounds = Equality 5\<rparr> = Some t \<and>
        constr_upper \<lparr>constr_name = ''e'', constr_active = True,
            constr_body = \<lparr>expr_value = Some 5, expr_vars = [], expr_text = ''x''\<rparr>,
            constr_bounds = Equality 5\<rparr> = Some t \<and>
       (infeasible_constraint \<lparr>fmt_value = (\<lambda>x. ''5''), fmt_bound = (\<lambda>x. ''5'')\<rparr>
           (1 / 1000000) module_logger False False
           \<lparr>constr_name = ''e'', constr_active = True,
            constr_body = \<lparr>expr_value = Some 5, expr_vars = [], expr_text = ''x''\<rparr>,
            constr_bounds = Equality 5\<rparr>
           \<lparr>model = Block [] [] [], sink = []\<rparr> = \<lparr>model = Block [] [] [], sink = []\<rparr>
        \<or> infeasible_constraint \<lparr>fmt_value = (\<lambda>x. ''5''), fmt_bound = (\<lambda>x. ''5'')\<rparr>
           (1 / 1000000) module_logger False False
           \<lparr>constr_name = ''e'', constr_active = True,
            constr_body = \<lparr>expr_value = Some 5, expr_vars = [], expr_text = ''x''\<rparr>,
            constr_bounds = Equality 5\<rparr>
           \<lparr>model = Block [] [] [], sink = []\<rparr> =
           \<lparr>model = Block [] [] [], sink = [info_record module_logger ''CONSTR e: 5 =/= 5'']\<rparr>)"
  using equality_never_range_checked [of
           "\<lparr>constr_name = ''e'', constr_active = True,
            constr_body = \<lparr>expr_value = Some 5, expr_vars = [], expr_text = ''x''\<rparr>,
            constr_bounds = Equality 5\<rparr>" 5
           "\<lparr>fmt_value = (\<lambda>x. ''5''), fmt_bound = (\<lambda>x. ''5'')\<rparr>"
           "1 / 1000000" module_logger False False "\<lparr>model = Block [] [] [], sink = []\<rparr>"]
  by (simp add: constr_equality_def constr_lower_def constr_upper_def log_template_def
        logger_info_def)

section \<open>Variables outside their bounds\<close>

lemma infeasible_bound_value:
  assumes "var_value v = Some x"
  shows "infeasible_bound f tol lg v w =
           (let w1 = (case var_lb v of
                        Some l \<Rightarrow>
                          if tol \<le> l - x
                          then logger_info lg
                                 (''VAR '' @ var_name v @ '': '' @ fmt_value f x @ '' < LB '' @ fmt_value f l) w
                          else w
                      | None \<Rightarrow> w)
            in (case var_ub v of
                  Some u \<Rightarrow>
                    if tol \<le> x - u
                    then logger_info lg
                           (''VAR '' @ var_name v @ '': '' @ fmt_value f x @ '' > UB '' @ fmt_value f u) w1
                    else w1
                | None \<Rightarrow> w1))"
  using assms by (simp add: infeasible_bound_def)

text \<open>
  Claim C7. Let \<open>v\<close> be a variable of the model with the assigned value \<open>x\<close>. Then
  \<^verbatim>\<open>log_infeasible_bounds\<close> processes the variables before \<open>v\<close>, logs the line
  \<^verbatim>\<open>value < LB\<close> exactly when a lower bound \<open>l\<close> exists and \<open>l - x \<ge> tol\<close>, logs the
  line \<^verbatim>\<open>value > UB\<close> exactly when an upper bound \<open>u\<close> exists and \<open>x - u \<ge> tol\<close>, and goes
  on with the variables after \<open>v\<close>. The two checks are independent, and both lines can be
  logged for one variable.
\<close>

theorem bound_violations_independent:
  assumes "var_objects (model w) = vs @ v # vs'" and "var_value v = Some x"
  shows "log_infeasible_bounds f tol lg w =
           fold (infeasible_bound f tol lg) vs'
             (let w0 = fold (infeasible_bound f tol lg) vs w;
                  w1 = (case var_lb v of
                        Some l \<Rightarrow>
                          if tol \<le> l - x
                          then logger_info lg
                                 (''VAR '' @ var_name v @ '': '' @ fmt_value f x @ '' < LB '' @ fmt_value f l) w0
                          else w0
                      | None \<Rightarrow> w0)
              in (case var_ub v of
                  Some u \<Rightarrow>
                    if tol \<le> x - u
                    then logger_info lg
                           (''VAR '' @ var_name v @ '': '' @ fmt_value f x @ '' > UB '' @ fmt_value f u) w1
                    else w1
                | None \<Rightarrow> w1))"
  using assms(1) infeasible_bound_value [OF assms(2)]
  by (simp add: log_infeasible_bounds_def Let_def)

theorem bound_violations_independent_witness:
  "sink (log_infeasible_bounds
           \<lparr>fmt_value = (\<lambda>x. if x = 3 then ''3'' else if x = 5 then ''5'' else ''1''), fmt_bound = (\<lambda>x. ''?'')\<rparr>
           (1 / 1000000) module_logger
           \<lparr>model = Block [] [] [Block [\<lparr>var_name = ''x'', var_value = Some 3, var_lb = Some 5, var_ub = Some 1, var_fixed = False\<rparr>] [] []], sink = []\<rparr>)
   = [info_record module_logger ''VAR x: 3 < LB 5'',
      info_record module_logger ''VAR x: 3 > UB 1'']"
  using bound_violations_independent [where
           w = "\<lparr>model = Block [] [] [Block [\<lparr>var_name = ''x'', var_value = Some 3, var_lb = Some 5, var_ub = Some 1, var_fixed = False\<rparr>] [] []], sink = []\<rparr>"
           and vs = "[]"
           and v = "\<lparr>var_name = ''x'', var_value = Some 3, var_lb = Some 5, var_ub = Some 1, var_fixed = False\<rparr>"
           and vs' = "[]" and x = 3
           and f = "\<lparr>fmt_value = (\<lambda>x. if x = 3 then ''3'' else if x = 5 then ''5'' else ''1''), fmt_bound = (\<lambda>x. ''?'')\<rparr>"
           and tol = "1 / 1000000" and lg = module_logger]
  by (simp add: sink_logger_info)

section \<open>Variables near their bounds\<close>

lemma close_var_value:
  assumes "\<not> var_fixed v" and "var_value v = Some x"
  shows "close_var f tol lg v w =
           (if (case var_lb v of
                  Some l \<Rightarrow> (case var_ub v of Some u \<Rightarrow> \<bar>u - l\<bar> \<le> 2 * tol | None \<Rightarrow> False)
                | None \<Rightarrow> False)
            then w
            else if (case var_lb v of Some l \<Rightarrow> \<bar>l - x\<bar> \<le> tol | None \<Rightarrow> False)
            then (case var_lb v of
                    Some l \<Rightarrow> logger_info lg (var_name v @ '' near LB of '' @ fmt_value f l) w
                  | None \<Rightarrow> w)
            else (case var_ub v of
                    Some u \<Rightarrow>
                      if \<bar>u - x\<bar> \<le> tol
                      then logger_info lg (var_name v @ '' near UB of '' @ fmt_value f u) w
                      else w
                  | None \<Rightarrow> w))"
  using assms by (simp add: close_var_def Let_def split: option.split)

lemma close_var_at_most_one:
  "length (sink (close_var f tol lg v w)) \<le> Suc (length (sink w))"
  by (simp add: close_var_def sink_logger_info sink_logger_debug Let_def split: option.split)

text \<open>
  Claim C5. Let \<open>v\<close> be a variable of the model that is not fixed and has the value
  \<open>x\<close>. Then \<^verbatim>\<open>log_close_to_bounds\<close> processes the variables before \<open>v\<close>; for \<open>v\<close> it logs
  nothing when both bounds exist and \<open>\<bar>u - l\<bar> \<le> 2 * tol\<close>, even when \<open>x\<close> is one of the
  bounds; otherwise it logs \<^verbatim>\<open>near LB\<close> when \<open>\<bar>l - x\<bar> \<le> tol\<close>, and only if that test
  fails \<^verbatim>\<open>near UB\<close> when \<open>\<bar>u - x\<bar> \<le> tol\<close>; then it goes on with the variables after
  \<open>v\<close> and with the constraints. At most one line is logged for a variable.
\<close>

theorem near_bound_variable:
  assumes "var_objects (model w) = vs @ v # vs'" and "\<not> var_fixed v" and "var_value v = Some x"
  shows "log_close_to_bounds f tol lg w =
           fold (close_constraint tol lg) (active_constraint_objects (model w))
             (fold (close_var f tol lg) vs'
                (let w0 = fold (close_var f tol lg) vs w
                 in if (case var_lb v of
                          Some l \<Rightarrow> (case var_ub v of Some u \<Rightarrow> \<bar>u - l\<bar> \<le> 2 * tol | None \<Rightarrow> False)
                        | None \<Rightarrow> False)
                    then w0
                    else if (case var_lb v of Some l \<Rightarrow> \<bar>l - x\<bar> \<le> tol | None \<Rightarrow> False)
                    then (case var_lb v of
                            Some l \<Rightarrow> logger_info lg (var_name v @ '' near LB of '' @ fmt_value f l) w0
                          | None \<Rightarrow> w0)
                    else (case var_ub v of
                            Some u \<Rightarrow>
                              if \<bar>u - x\<bar> \<le> tol
                              then logger_info lg (var_name v @ '' near UB of '' @ fmt_value f u) w0
                              else w0
                          | None \<Rightarrow> w0)))
         \<and> length (sink (close_var f tol lg v w)) \<le> Suc (length (sink w))"
  using assms(1) close_var_value [OF assms(2,3)] close_var_at_most_one [of f tol lg v w]
  by (simp add: log_close_to_bounds_unfold Let_def)

text \<open>Three variables: one whose value is its lower bound but whose bounds are too
  close, one near its lower bound, one at its upper bound.\<close>

theorem near_bound_variable_witness:
  "sink (log_close_to_bounds
           \<lparr>fmt_value = (\<lambda>x. if x = 0 then ''0'' else ''10''), fmt_bound = (\<lambda>x. ''?'')\<rparr>
           (1 / 1000000) module_logger
           \<lparr>model = Block [\<lparr>var_name = ''x'', var_value = Some 0, var_lb = Some 0, var_ub = Some (1 / 1000000), var_fixed = False\<rparr>,
             \<lparr>var_name = ''y'', var_value = Some (1 / 1000000), var_lb = Some 0, var_ub = Some (1 / 400000), var_fixed = False\<rparr>,
             \<lparr>var_name = ''z'', var_value = Some 10, var_lb = Some 0, var_ub = Some 10, var_fixed = False\<rparr>] [] [], sink = []\<rparr>)
   = [info_record module_logger ''y near LB of 0'',
      info_record module_logger ''z near UB of 10'']"
  using near_bound_variable [where
           w = "\<lparr>model = Block [\<lparr>var_name = ''x'', var_value = Some 0, var_lb = Some 0, var_ub = Some (1 / 1000000), var_fixed = False\<rparr>,
             \<lparr>var_name = ''y'', var_value = Some (1 / 1000000), var_lb = Some 0, var_ub = Some (1 / 400000), var_fixed = False\<rparr>,
             \<lparr>var_name = ''z'', var_value = Some 10, var_lb = Some 0, var_ub = Some 10, var_fixed = False\<rparr>] [] [], sink = []\<rparr>"
           and vs = "[\<lparr>var_name = ''x'', var_value = Some 0, var_lb = Some 0, var_ub = Some (1 / 1000000), var_fixed = False\<rparr>]"
           and v = "\<lparr>var_name = ''y'', var_value = Some (1 / 1000000), var_lb = Some 0, var_ub = Some (1 / 400000), var_fixed = False\<rparr>"
           and vs' = "[\<lparr>var_name = ''z'', var_value = Some 10, var_lb = Some 0, var_ub = Some 10, var_fixed = False\<rparr>]" and x = "1 / 1000000"
           and f = "\<lparr>fmt_value = (\<lambda>x. if x = 0 then ''0'' else ''10''), fmt_bound = (\<lambda>x. ''?'')\<rparr>"
           and tol = "1 / 1000000" and lg = module_logger]
  by (simp add: active_constraint_objects_def sink_logger_info close_var_def)

section \<open>Constraints near their bounds\<close>

lemma fold_filter_skip:
  assumes "\<And>x s. \<not> P x \<Longrightarrow> g x s = s"
  shows "fold g (filter P xs) w = fold g xs w"
  by (induction xs arbitrary: w) (simp_all add: assms)

text \<open>
  Claim C6. \<^verbatim>\<open>log_close_to_bounds\<close> analyses only constraints that are active and not
  equalities: for an equality constraint the loop body does nothing, and the second loop
  is the same as a loop over the active constraints that are not equalities. For such a
  constraint whose body evaluates to \<open>b\<close> the two checks are independent: \<^verbatim>\<open>near UB\<close> is
  logged exactly when the upper bound \<open>u\<close> exists and \<open>\<bar>b - u\<bar> \<le> tol\<close>, \<^verbatim>\<open>near LB\<close> exactly
  when the lower bound \<open>l\<close> exists and \<open>\<bar>b - l\<bar> \<le> tol\<close>, and both can be logged for one
  constraint.
\<close>

theorem near_bound_constraint:
  "(constr_equality c \<longrightarrow> close_constraint tol lg c w = w) \<and>
   (\<not> constr_equality c \<and> expr_value (constr_body c) = Some b \<longrightarrow>
      sink (close_constraint tol lg c w) =
        sink w
        @ (case constr_upper c of
             Some u \<Rightarrow> if \<bar>b - u\<bar> \<le> tol then [info_record lg (constr_name c @ '' near UB'')] else []
           | None \<Rightarrow> [])
        @ (case constr_lower c of
             Some l \<Rightarrow> if \<bar>b - l\<bar> \<le> tol then [info_record lg (constr_name c @ '' near LB'')] else []
           | None \<Rightarrow> [])) \<and>
   log_close_to_bounds f tol lg w =
     fold (close_constraint tol lg)
       (filter (\<lambda>c. constr_active c \<and> \<not> constr_equality c) (constraint_objects (model w)))
       (fold (close_var f tol lg) (var_objects (model w)) w)"
proof (intro conjI impI)
  assume "constr_equality c"
  then show "close_constraint tol lg c w = w" by (simp add: close_constraint_def)
next
  assume "\<not> constr_equality c \<and> expr_value (constr_body c) = Some b"
  then show "sink (close_constraint tol lg c w) =
        sink w
        @ (case constr_upper c of
             Some u \<Rightarrow> if \<bar>b - u\<bar> \<le> tol then [info_record lg (constr_name c @ '' near UB'')] else []
           | None \<Rightarrow> [])
        @ (case constr_lower c of
             Some l \<Rightarrow> if \<bar>b - l\<bar> \<le> tol then [info_record lg (constr_name c @ '' near LB'')] else []
           | None \<Rightarrow> [])"
    by (simp add: close_constraint_def sink_logger_info Let_def split: option.split)
next
  have mv: "model (fold (close_var f tol lg) (var_objects (model w)) w) = model w"
    by (rule model_fold) (rule model_close_var)
  have "filter (\<lambda>c. constr_active c \<and> \<not> constr_equality c) (constraint_objects (model w)) =
        filter (\<lambda>c. \<not> constr_equality c) (active_constraint_objects (model w))"
    by (simp add: active_constraint_objects_def conj_commute)
  moreover have "fold (close_constraint tol lg)
          (filter (\<lambda>c. \<not> constr_equality c) (active_constraint_objects (model w))) s =
        fold (close_constraint tol lg) (active_constraint_objects (model w)) s" for s
    by (rule fold_filter_skip) (simp add: close_constraint_def)
  ultimately show "log_close_to_bounds f tol lg w =
     fold (close_constraint tol lg)
       (filter (\<lambda>c. constr_active c \<and> \<not> constr_equality c) (constraint_objects (model w)))
       (fold (close_var f tol lg) (var_objects (model w)) w)"
    by (simp add: log_close_to_bounds_def Let_def mv)
qed

theorem near_bound_constraint_witness:
  "close_constraint (1 / 1000000) module_logger
     \<lparr>constr_name = ''e'', constr_active = True,
      constr_body = \<lparr>expr_value = Some 5, expr_vars = [], expr_text = ''x''\<rparr>,
      constr_bounds = Equality 5\<rparr>
     \<lparr>model = Block [] [] [], sink = []\<rparr> = \<lparr>model = Block [] [] [], sink = []\<rparr>
   \<and> sink (close_constraint (1 / 1000000) module_logger
       \<lparr>constr_name = ''c'', constr_active = True,
        constr_body = \<lparr>expr_value = Some 0, expr_vars = [], expr_text = ''x''\<rparr>,
        constr_bounds = Range (Some 0) (Some (1 / 10000000))\<rparr>
       \<lparr>model = Block [] [] [], sink = []\<rparr>)
     = [info_record module_logger ''c near UB'', info_record module_logger ''c near LB'']"
  using near_bound_constraint [of
     "\<lparr>constr_name = ''e'', constr_active = True,
      constr_body = \<lparr>expr_value = Some 5, expr_vars = [], expr_text = ''x''\<rparr>,
      constr_bounds = Equality 5\<rparr>" "1 / 1000000" module_logger
     "\<lparr>model = Block [] [] [], sink = []\<rparr>"]
   near_bound_constraint [of
     "\<lparr>constr_name = ''c'', constr_active = True,
        constr_body = \<lparr>expr_value = Some 0, expr_vars = [], expr_text = ''x''\<rparr>,
        constr_bounds = Range (Some 0) (Some (1 / 10000000))\<rparr>" "1 / 1000000" module_logger
     "\<lparr>model = Block [] [] [], sink = []\<rparr>" 0]
  by (simp add: constr_equality_def constr_lower_def constr_upper_def)

section \<open>The skip message for a variable\<close>



section \<open>Entities with an unset value\<close>










section \<open>Parameters and defaults\<close>

text \<open>
  \<^verbatim>\<open>log_active_constraints\<close> declares no parameter \<^verbatim>\<open>tol\<close>: a call that passes one is
  rejected.
\<close>

theorem active_constraints_rejects_tol:
  "call_log_active_constraints
     \<lparr>kw_tol = Some (1 / 1000000), kw_logger = None, kw_log_expression = None,
      kw_log_variables = None\<rparr>
     \<lparr>model = Block [] [] [], sink = []\<rparr> = Inl TypeError"
  by (simp add: call_log_active_constraints_def)

text \<open>
  Claim C8, as amended. \<^verbatim>\<open>log_infeasible_constraints\<close>, \<^verbatim>\<open>log_infeasible_bounds\<close> and
  \<^verbatim>\<open>log_close_to_bounds\<close> each take the model, a tolerance that defaults to \<^verbatim>\<open>1E-6\<close> and a
  logger that defaults to the module's own; \<^verbatim>\<open>log_active_constraints\<close> takes the model and a
  logger that defaults to the module's own, and no tolerance.
\<close>

theorem report_signatures:
  "call_log_infeasible_constraints f
     \<lparr>kw_tol = None, kw_logger = None, kw_log_expression = None, kw_log_variables = None\<rparr> w
     = Inr (log_infeasible_constraints f (1 / 1000000) module_logger False False w)
   \<and> call_log_infeasible_constraints f
     \<lparr>kw_tol = Some t, kw_logger = Some lg, kw_log_expression = Some le,
      kw_log_variables = Some lv\<rparr> w
     = Inr (log_infeasible_constraints f t lg le lv w)
   \<and> call_log_infeasible_bounds f
     \<lparr>kw_tol = None, kw_logger = None, kw_log_expression = None, kw_log_variables = None\<rparr> w
     = Inr (log_infeasible_bounds f (1 / 1000000) module_logger w)
   \<and> call_log_infeasible_bounds f
     \<lparr>kw_tol = Some t, kw_logger = Some lg, kw_log_expression = None,
      kw_log_variables = None\<rparr> w
     = Inr (log_infeasible_bounds f t lg w)
   \<and> call_log_close_to_bounds f
     \<lparr>kw_tol = None, kw_logger = None, kw_log_expression = None, kw_log_variables = None\<rparr> w
     = Inr (log_close_to_bounds f (1 / 1000000) module_logger w)
   \<and> call_log_close_to_bounds f
     \<lparr>kw_tol = Some t, kw_logger = Some lg, kw_log_expression = None,
      kw_log_variables = None\<rparr> w
     = Inr (log_close_to_bounds f t lg w)
   \<and> call_log_active_constraints
     \<lparr>kw_tol = None, kw_logger = None, kw_log_expression = None, kw_log_variables = None\<rparr> w
     = Inr (log_active_constraints module_logger w)
   \<and> call_log_active_constraints
     \<lparr>kw_tol = None, kw_logger = Some lg, kw_log_expression = None,
      kw_log_variables = None\<rparr> w
     = Inr (log_active_constraints lg w)
   \<and> call_log_active_constraints
     \<lparr>kw_tol = Some t, kw_logger = lgo, kw_log_expression = leo, kw_log_variables = lvo\<rparr> w
     = Inl TypeError"
  by (simp add: call_log_infeasible_constraints_def call_log_infeasible_bounds_def
        call_log_close_to_bounds_def call_log_active_constraints_def default_def)

theorem report_signatures_witness:
  "call_log_infeasible_bounds \<lparr>fmt_value = (\<lambda>x. if x = 0 then ''0'' else ''1e-06''), fmt_bound = (\<lambda>x. ''0'')\<rparr>
     \<lparr>kw_tol = None, kw_logger = None, kw_log_expression = None, kw_log_variables = None\<rparr>
     \<lparr>model = Block
        [\<lparr>var_name = ''y'', var_value = Some 0, var_lb = Some (1 / 1000000), var_ub = None,
          var_fixed = False\<rparr>] [] [],
      sink = []\<rparr>
   = Inr \<lparr>model = Block
        [\<lparr>var_name = ''y'', var_value = Some 0, var_lb = Some (1 / 1000000), var_ub = None,
          var_fixed = False\<rparr>] [] [],
      sink = [\<lparr>rec_logger = Logger ''pyomo.util.infeasible'', rec_level = INFO,
               rec_msg = ''VAR y: 0 < LB 1e-06''\<rparr>]\<rparr>
   \<and> call_log_active_constraints
     \<lparr>kw_tol = None, kw_logger = Some (Logger ''mine''), kw_log_expression = None,
      kw_log_variables = None\<rparr>
     \<lparr>model = Block [] 
        [\<lparr>constr_name = ''c'', constr_active = True,
          constr_body = \<lparr>expr_value = None, expr_vars = [], expr_text = ''x''\<rparr>,
          constr_bounds = Equality 1\<rparr>] [],
      sink = []\<rparr>
   = Inr \<lparr>model = Block [] 
        [\<lparr>constr_name = ''c'', constr_active = True,
          constr_body = \<lparr>expr_value = None, expr_vars = [], expr_text = ''x''\<rparr>,
          constr_bounds = Equality 1\<rparr>] [],
      sink = [\<lparr>rec_logger = Logger ''mine'', rec_level = INFO, rec_msg = ''c active''\<rparr>]\<rparr>
   \<and> call_log_active_constraints
     \<lparr>kw_tol = Some (1 / 1000000), kw_logger = None, kw_log_expression = None,
      kw_log_variables = None\<rparr>
     \<lparr>model = Block [] 
        [\<lparr>constr_name = ''c'', constr_active = True,
          constr_body = \<lparr>expr_value = None, expr_vars = [], expr_text = ''x''\<rparr>,
          constr_bounds = Equality 1\<rparr>] [],
      sink = []\<rparr>
   = Inl TypeError"
  using report_signatures [of
     "\<lparr>fmt_value = (\<lambda>x. if x = 0 then ''0'' else ''1e-06''), fmt_bound = (\<lambda>x. ''0'')\<rparr>"
     "\<lparr>model = Block
        [\<lparr>var_name = ''y'', var_value = Some 0, var_lb = Some (1 / 1000000), var_ub = None,
          var_fixed = False\<rparr>] [] [],
      sink = []\<rparr>"]
    report_signatures [of _
     "\<lparr>model = Block [] 
        [\<lparr>constr_name = ''c'', constr_active = True,
          constr_body = \<lparr>expr_value = None, expr_vars = [], expr_text = ''x''\<rparr>,
          constr_bounds = Equality 1\<rparr>] [],
      sink = []\<rparr>" "1 / 1000000" "Logger ''mine''" _ _ None None None]
  by (simp add: log_infeasible_bounds_def infeasible_bound_def log_active_constraints_def
        active_constraint_def active_constraint_objects_def logger_info_def info_record_def
        module_logger_def)

section \<open>The reports only read the model\<close>

text \<open>
  Claim C9. None of the four report functions changes the model: after
  \<^verbatim>\<open>log_infeasible_constraints\<close>, \<^verbatim>\<open>log_infeasible_bounds\<close>, \<^verbatim>\<open>log_close_to_bounds\<close> or
  \<^verbatim>\<open>log_active_constraints\<close> every variable and every constraint of the model is as it
  was before the call, and the only effect is that records are appended to the logging
  sink.
\<close>

theorem reports_only_log:
  "model (log_infeasible_constraints f tol lg le lv w) = model w \<and>
   model (log_infeasible_bounds f tol lg w) = model w \<and>
   model (log_close_to_bounds f tol lg w) = model w \<and>
   model (log_active_constraints lg w) = model w \<and>
   (\<exists>recs. sink (log_infeasible_constraints f tol lg le lv w) = sink w @ recs) \<and>
   (\<exists>recs. sink (log_infeasible_bounds f tol lg w) = sink w @ recs) \<and>
   (\<exists>recs. sink (log_close_to_bounds f tol lg w) = sink w @ recs) \<and>
   (\<exists>recs. sink (log_active_constraints lg w) = sink w @ recs)"
proof -
  have m1: "model (log_infeasible_constraints f tol lg le lv w) = model w"
    unfolding log_infeasible_constraints_def
    by (rule model_fold) (rule model_infeasible_constraint)
  have m2: "model (log_infeasible_bounds f tol lg w) = model w"
    unfolding log_infeasible_bounds_def by (rule model_fold) (rule model_infeasible_bound)
  have mv: "model (fold (close_var f tol lg) (var_objects (model w)) w) = model w"
    by (rule model_fold) (rule model_close_var)
  have m3: "model (log_close_to_bounds f tol lg w) = model w"
    unfolding log_close_to_bounds_def Let_def
    using mv model_fold [of "close_constraint tol lg", OF model_close_constraint] by simp
  have m4: "model (log_active_constraints lg w) = model w"
    unfolding log_active_constraints_def by (rule model_fold) (rule model_active_constraint)
  have s1: "\<exists>recs. sink (log_infeasible_constraints f tol lg le lv w) = sink w @ recs"
    unfolding log_infeasible_constraints_def
    by (rule extends_fold) (rule grows_infeasible_constraint)
  have s2: "\<exists>recs. sink (log_infeasible_bounds f tol lg w) = sink w @ recs"
    unfolding log_infeasible_bounds_def by (rule extends_fold) (rule grows_infeasible_bound)
  have s3: "\<exists>recs. sink (log_close_to_bounds f tol lg w) = sink w @ recs"
  proof -
    obtain r1 where r1: "sink (fold (close_var f tol lg) (var_objects (model w)) w) = sink w @ r1"
      using extends_fold [of "close_var f tol lg", OF grows_close_var] by blast
    obtain r2 where r2:
      "sink (log_close_to_bounds f tol lg w) =
         sink (fold (close_var f tol lg) (var_objects (model w)) w) @ r2"
      unfolding log_close_to_bounds_def Let_def
      using extends_fold [of "close_constraint tol lg", OF grows_close_constraint] by blast
    show ?thesis using r1 r2 by simp
  qed
  have s4: "\<exists>recs. sink (log_active_constraints lg w) = sink w @ recs"
    unfolding log_active_constraints_def by (rule extends_fold) (rule grows_active_constraint)
  show ?thesis using m1 m2 m3 m4 s1 s2 s3 s4 by blast
qed

end
